theory Spec2Isabelle
  imports Complex_Main "HOL-Library.Word"
begin

section \<open>Configuration and the class-label table\<close>

text \<open>
  The module \<^verbatim>\<open>c.py\<close> is a small web front end over a pretrained classifier.
  Python floats are modelled as exact reals: the comparisons of the filtering loop are
  order comparisons, and \<^verbatim>\<open>round(x, 1)\<close> is decimal rounding, ties to even.
\<close>

definition MIN_CONFIDENCE :: real where
  "MIN_CONFIDENCE = 0.40"

definition MAX_CONFIDENCE :: real where
  "MAX_CONFIDENCE = 1.00"

text \<open>The literal of \<^verbatim>\<open>imagenet_classes\<close>, in source order.\<close>

definition imagenet_classes_items :: "(string \<times> string) list" where
  "imagenet_classes_items =
    [(''0'', ''tench''), (''1'', ''goldfish''), (''2'', ''great white shark''),
     (''3'', ''tiger shark''), (''4'', ''hammerhead''), (''5'', ''electric ray''),
     (''6'', ''stingray''), (''7'', ''rooster''), (''8'', ''hen''), (''9'', ''ostrich''),
     (''10'', ''brambling''), (''11'', ''goldfinch''), (''99'', ''goose''),
     (''151'', ''Chihuahua''), (''152'', ''Japanese spaniel''), (''153'', ''Maltese dog''),
     (''154'', ''Pekinese''), (''155'', ''Shih-Tzu''), (''156'', ''Blenheim spaniel''),
     (''157'', ''papillon''), (''158'', ''toy terrier''), (''207'', ''golden retriever''),
     (''208'', ''Labrador retriever''), (''282'', ''tiger cat''), (''283'', ''Persian cat''),
     (''284'', ''Siamese cat''), (''291'', ''lion''), (''292'', ''tiger''),
     (''293'', ''cheetah''), (''294'', ''brown bear''), (''404'', ''airliner''),
     (''407'', ''ambulance''), (''429'', ''baseball''), (''430'', ''basketball''),
     (''504'', ''coffee mug''), (''620'', ''laptop''), (''850'', ''television''),
     (''858'', ''toaster''), (''927'', ''ice cream''), (''948'', ''strawberry''),
     (''949'', ''orange''), (''950'', ''lemon''), (''962'', ''pizza'')]"

text \<open>
  The dictionary itself. A Python dict literal keeps the last value of a repeated key;
  the keys of this literal are distinct (lemma \<open>imagenet_keys_distinct\<close> below), so the
  lookup order does not matter.
\<close>

definition imagenet_classes :: "string \<rightharpoonup> string" where
  "imagenet_classes = map_of imagenet_classes_items"

text \<open>\<^verbatim>\<open>d.get(key, default)\<close>.\<close>

definition dict_get :: "('k \<rightharpoonup> 'v) \<Rightarrow> 'k \<Rightarrow> 'v \<Rightarrow> 'v" where
  "dict_get d k dflt = (case d k of Some v \<Rightarrow> v | None \<Rightarrow> dflt)"

text \<open>\<^verbatim>\<open>str(n)\<close> of a non-negative integer: its decimal digits.\<close>

definition digit_char :: "nat \<Rightarrow> char" where
  "digit_char d = ''0123456789'' ! d"

fun str_nat :: "nat \<Rightarrow> string" where
  "str_nat n = (if n < 10 then [digit_char n] else str_nat (n div 10) @ [digit_char (n mod 10)])"

declare str_nat.simps [simp del]

text \<open>
  Line 68: \<^verbatim>\<open>imagenet_classes.get(class_id, f"Class {class_id}")\<close>, on the string
  \<^verbatim>\<open>class_id\<close>.
\<close>

definition class_name_of :: "string \<Rightarrow> string" where
  "class_name_of class_id = dict_get imagenet_classes class_id (''Class '' @ class_id)"

section \<open>The inference service\<close>

text \<open>
  \<^verbatim>\<open>round(x, ndigits)\<close> on the exact value of \<open>x\<close>: the nearest multiple of
  \<open>10 ^ -ndigits\<close>, a tie going to the even one.
\<close>

definition round_half_even :: "real \<Rightarrow> int" where
  "round_half_even y =
     (let f = \<lfloor>y\<rfloor>; d = y - of_int f
      in if d < 1 / 2 then f else if 1 / 2 < d then f + 1 else if even f then f else f + 1)"

definition py_round :: "real \<Rightarrow> nat \<Rightarrow> real" where
  "py_round x ndigits = of_int (round_half_even (x * 10 ^ ndigits)) / 10 ^ ndigits"

text \<open>One entry of \<^verbatim>\<open>predictions\<close>: the dict with keys \<^verbatim>\<open>class\<close> and \<^verbatim>\<open>confidence\<close>.\<close>

record prediction =
  class_name :: string
  confidence :: real

text \<open>
  \<^verbatim>\<open>torch.topk(input, k)\<close> on a one-dimensional tensor: the \<open>k\<close> largest values in
  descending order with their indices; it raises when \<open>k\<close> exceeds the size. The library
  leaves the order of equal values open; here the lower index comes first.
\<close>

definition ranked :: "real list \<Rightarrow> (real \<times> nat) list" where
  "ranked input = sort_key (\<lambda>(v, i). - v) (zip input [0..<length input])"

definition topk :: "real list \<Rightarrow> nat \<Rightarrow> string + (real list \<times> nat list)" where
  "topk input k =
     (if k \<le> length input
      then Inr (map fst (take k (ranked input)), map snd (take k (ranked input)))
      else Inl ''selected index k out of range'')"

text \<open>
  Lines 63 to 75, the loop over \<^verbatim>\<open>range(top_probs.size(0))\<close>, as a recursion over the
  pairs \<^verbatim>\<open>(top_probs[i], top_ids[i])\<close>: an entry inside the band is appended, an entry
  below the band ends the loop, any other entry is passed over.
\<close>

fun filter_loop :: "(real \<times> nat) list \<Rightarrow> prediction list" where
  "filter_loop [] = []"
| "filter_loop ((conf, cid) # rest) =
     (if MIN_CONFIDENCE \<le> conf \<and> conf \<le> MAX_CONFIDENCE then
        \<lparr>class_name = class_name_of (str_nat cid), confidence = py_round (conf * 100) 1\<rparr>
          # filter_loop rest
      else if conf < MIN_CONFIDENCE then []
      else filter_loop rest)"

type_synonym bytes = "8 word list"

text \<open>
  The body of the \<^verbatim>\<open>try\<close> block of \<^verbatim>\<open>predict_image\<close>. The library calls are
  parameters: \<open>image_open\<close> stands for decoding the bytes into an RGB image (line 54),
  \<open>softmax_model\<close> for preprocessing, the forward pass and the softmax (lines 55 to 59).
  Each either raises, which the model renders as \<open>Inl\<close> of the exception's message, or
  returns.
\<close>

definition predict_image_try ::
  "(bytes \<Rightarrow> string + 'img) \<Rightarrow> ('img \<Rightarrow> string + real list) \<Rightarrow> bytes \<Rightarrow> string + prediction list"
where
  "predict_image_try image_open softmax_model image_bytes =
     (case image_open image_bytes of
        Inl e \<Rightarrow> Inl e
      | Inr img \<Rightarrow>
          (case softmax_model img of
             Inl e \<Rightarrow> Inl e
           | Inr probs \<Rightarrow>
               (case topk probs 50 of
                  Inl e \<Rightarrow> Inl e
                | Inr (top_probs, top_ids) \<Rightarrow> Inr (filter_loop (zip top_probs top_ids)))))"

text \<open>
  \<^verbatim>\<open>predict_image\<close>: the handler of line 78 re-raises every exception of the block as
  \<^verbatim>\<open>Exception(f"Error: {str(e)}")\<close>.
\<close>

definition predict_image ::
  "(bytes \<Rightarrow> string + 'img) \<Rightarrow> ('img \<Rightarrow> string + real list) \<Rightarrow> bytes \<Rightarrow> string + prediction list"
where
  "predict_image image_open softmax_model image_bytes =
     (case predict_image_try image_open softmax_model image_bytes of
        Inl e \<Rightarrow> Inl (''Error: '' @ e)
      | Inr predictions \<Rightarrow> Inr predictions)"

section \<open>The HTTP facade\<close>

datatype json =
    JBool bool
  | JNum real
  | JStr string
  | JArr "json list"
  | JObj "(string \<times> json) list"

record file_storage =
  filename :: string
  content :: bytes

text \<open>\<^verbatim>\<open>request.files\<close>: the uploaded files by field name, the first of a name found.\<close>

record request =
  files :: "(string \<times> file_storage) list"

record response =
  status :: nat
  body :: json

text \<open>\<^verbatim>\<open>jsonify\<close> builds a response with the JSON body and the default status 200.\<close>

definition jsonify :: "json \<Rightarrow> response" where
  "jsonify j = \<lparr>status = 200, body = j\<rparr>"

definition prediction_json :: "prediction \<Rightarrow> json" where
  "prediction_json p = JObj [(''class'', JStr (class_name p)), (''confidence'', JNum (confidence p))]"

text \<open>
  The view \<^verbatim>\<open>predict\<close> of \<^verbatim>\<open>POST /predict\<close>. Beside the response it returns the
  byte strings on which \<^verbatim>\<open>predict_image\<close> was called, in call order.
\<close>

definition predict ::
  "(bytes \<Rightarrow> string + 'img) \<Rightarrow> ('img \<Rightarrow> string + real list) \<Rightarrow> request \<Rightarrow> response \<times> bytes list"
where
  "predict image_open softmax_model req =
     (case map_of (files req) ''file'' of
        None \<Rightarrow> (jsonify (JObj [(''success'', JBool False), (''error'', JStr ''No file uploaded'')]), [])
      | Some file \<Rightarrow>
          if filename file = ''''
          then (jsonify (JObj [(''success'', JBool False), (''error'', JStr ''No file selected'')]), [])
          else
            (let image_bytes = content file
             in case predict_image image_open softmax_model image_bytes of
                  Inr predictions \<Rightarrow>
                    (jsonify (JObj [(''success'', JBool True),
                                    (''predictions'', JArr (map prediction_json predictions))]),
                     [image_bytes])
                | Inl e \<Rightarrow>
                    (jsonify (JObj [(''success'', JBool False), (''error'', JStr e)]),
                     [image_bytes])))"

section \<open>Notions used to state the properties\<close>

text \<open>What the loop appends for an entry \<^verbatim>\<open>(conf, class index)\<close> that it keeps.\<close>

definition emit :: "real \<times> nat \<Rightarrow> prediction" where
  "emit e = \<lparr>class_name = class_name_of (str_nat (snd e)), confidence = py_round (fst e * 100) 1\<rparr>"

text \<open>The band of the specification: a probability in \<open>[0.40, 1.00]\<close>.\<close>

definition in_band :: "real \<times> nat \<Rightarrow> bool" where
  "in_band e \<longleftrightarrow> MIN_CONFIDENCE \<le> fst e \<and> fst e \<le> MAX_CONFIDENCE"

text \<open>The pairs \<^verbatim>\<open>(top_probs[i], top_ids[i])\<close> that \<^verbatim>\<open>torch.topk(probs, 50)\<close> yields.\<close>

definition top_entries :: "real list \<Rightarrow> (real \<times> nat) list" where
  "top_entries probs = take 50 (ranked probs)"

text \<open>Reading a member of a JSON object.\<close>

fun json_get :: "json \<Rightarrow> string \<Rightarrow> json option" where
  "json_get (JObj kvs) k = map_of kvs k"
| "json_get _ k = None"

subsection \<open>Sample inputs\<close>

text \<open>
  A decoder that rejects the empty byte string, and networks over 50 classes: one with
  two classes above the threshold, one with a uniform distribution, one that raises.
\<close>

definition sample_open :: "bytes \<Rightarrow> string + unit" where
  "sample_open b = (if b = [] then Inl ''cannot identify image file'' else Inr ())"

definition sample_probs :: "real list" where
  "sample_probs = 1 / 960 # 1 / 2 # 9 / 20 # replicate 47 (1 / 960)"

definition sample_model :: "unit \<Rightarrow> string + real list" where
  "sample_model img = Inr sample_probs"

definition flat_probs :: "real list" where
  "flat_probs = replicate 50 (1 / 50)"

definition flat_model :: "unit \<Rightarrow> string + real list" where
  "flat_model img = Inr flat_probs"

definition failing_model :: "unit \<Rightarrow> string + real list" where
  "failing_model img = Inl ''out of memory''"

definition sample_file :: file_storage where
  "sample_file = \<lparr>filename = ''cat.jpg'', content = [255, 216, 255]\<rparr>"

definition empty_file :: file_storage where
  "empty_file = \<lparr>filename = ''notes.txt'', content = []\<rparr>"

definition unnamed_file :: file_storage where
  "unnamed_file = \<lparr>filename = [], content = [255, 216, 255]\<rparr>"

section \<open>Label lookup\<close>

lemma imagenet_keys_distinct: "distinct (map fst imagenet_classes_items)"
  unfolding imagenet_classes_items_def by simp

lemma class_name_of_present: "imagenet_classes k = Some v \<Longrightarrow> class_name_of k = v"
  by (simp add: class_name_of_def dict_get_def)

lemma class_name_of_absent: "imagenet_classes k = None \<Longrightarrow> class_name_of k = ''Class '' @ k"
  by (simp add: class_name_of_def dict_get_def)

lemma imagenet_items_lookup: "(k, v) \<in> set imagenet_classes_items \<Longrightarrow> imagenet_classes k = Some v"
  unfolding imagenet_classes_def using imagenet_keys_distinct by (rule map_of_is_SomeI)

lemma str_nat_282: "str_nat 282 = ''282''"
  by (simp add: str_nat.simps digit_char_def)

lemma str_nat_500: "str_nat 500 = ''500''"
  by (simp add: str_nat.simps digit_char_def)

lemma imagenet_282: "imagenet_classes ''282'' = Some ''tiger cat''"
  by (simp add: imagenet_classes_def imagenet_classes_items_def)

lemma imagenet_500: "imagenet_classes ''500'' = None"
  by (simp add: imagenet_classes_def imagenet_classes_items_def)

text \<open>
  Claim C4. Label lookup maps every class index present in the label table to its fixed
  label and every absent index to the placeholder \<open>Class\<close> followed by the index: each
  item of the literal is found under its key, index 282 gives \<open>tiger cat\<close> and index 500
  gives \<open>Class 500\<close>, both as strings and as the integers the loop converts.
\<close>

theorem label_lookup:
  "(\<forall>k v. imagenet_classes k = Some v \<longrightarrow> class_name_of k = v)
   \<and> (\<forall>k. imagenet_classes k = None \<longrightarrow> class_name_of k = ''Class '' @ k)
   \<and> (\<forall>(k, v)\<in>set imagenet_classes_items. class_name_of k = v)
   \<and> imagenet_classes ''282'' = Some ''tiger cat'' \<and> class_name_of ''282'' = ''tiger cat''
   \<and> imagenet_classes ''500'' = None \<and> class_name_of ''500'' = ''Class 500''
   \<and> class_name_of (str_nat 282) = ''tiger cat'' \<and> class_name_of (str_nat 500) = ''Class 500''"
proof (intro conjI allI impI ballI)
  fix k v assume "imagenet_classes k = Some v"
  then show "class_name_of k = v" by (rule class_name_of_present)
next
  fix k assume "imagenet_classes k = None"
  then show "class_name_of k = ''Class '' @ k" by (rule class_name_of_absent)
next
  fix x assume "x \<in> set imagenet_classes_items"
  then have "imagenet_classes (fst x) = Some (snd x)"
    using imagenet_items_lookup[of "fst x" "snd x"] by simp
  then have "class_name_of (fst x) = snd x" by (rule class_name_of_present)
  then show "case x of (k, v) \<Rightarrow> class_name_of k = v" by (simp add: case_prod_beta)
next
  show "imagenet_classes ''282'' = Some ''tiger cat''" by (rule imagenet_282)
  show "class_name_of ''282'' = ''tiger cat''"
    using imagenet_282 by (rule class_name_of_present)
  show "imagenet_classes ''500'' = None" by (rule imagenet_500)
  show "class_name_of ''500'' = ''Class 500''"
    using class_name_of_absent[OF imagenet_500] by simp
  show "class_name_of (str_nat 282) = ''tiger cat''"
    unfolding str_nat_282 using imagenet_282 by (rule class_name_of_present)
  show "class_name_of (str_nat 500) = ''Class 500''"
    unfolding str_nat_500 using class_name_of_absent[OF imagenet_500] by simp
qed

theorem label_lookup_witness:
  "imagenet_classes ''7'' = Some ''rooster'' \<and> class_name_of ''7'' = ''rooster''
   \<and> imagenet_classes ''12'' = None \<and> class_name_of ''12'' = ''Class 12''
   \<and> (''962'', ''pizza'') \<in> set imagenet_classes_items \<and> class_name_of ''962'' = ''pizza''"
proof -
  have p: "imagenet_classes ''7'' = Some ''rooster''"
    by (simp add: imagenet_classes_def imagenet_classes_items_def)
  have q: "imagenet_classes ''12'' = None"
    by (simp add: imagenet_classes_def imagenet_classes_items_def)
  have r: "(''962'', ''pizza'') \<in> set imagenet_classes_items"
    by (simp add: imagenet_classes_items_def)
  from label_lookup have a: "\<forall>k v. imagenet_classes k = Some v \<longrightarrow> class_name_of k = v"
    by (rule conjunct1)
  from label_lookup have b: "\<forall>k. imagenet_classes k = None \<longrightarrow> class_name_of k = ''Class '' @ k"
    by (elim conjE)
  from label_lookup have c: "\<forall>(k, v)\<in>set imagenet_classes_items. class_name_of k = v"
    by (elim conjE)
  from a have "imagenet_classes ''7'' = Some ''rooster'' \<longrightarrow> class_name_of ''7'' = ''rooster''"
    by (elim allE)
  with p have p': "class_name_of ''7'' = ''rooster''" by (rule rev_mp)
  from b have "imagenet_classes ''12'' = None \<longrightarrow> class_name_of ''12'' = ''Class '' @ ''12''"
    by (elim allE)
  with q have "class_name_of ''12'' = ''Class '' @ ''12''" by (rule rev_mp)
  then have q': "class_name_of ''12'' = ''Class 12''" by simp
  from c r have "case (''962'', ''pizza'') of (k, v) \<Rightarrow> class_name_of k = v" by (rule bspec)
  then have r': "class_name_of ''962'' = ''pizza''" by (simp only: prod.case)
  from p p' q q' r r' show ?thesis by (intro conjI)
qed

section \<open>The filtering loop\<close>

lemma filter_loop_early_exit:
  "filter_loop xs =
     map emit (filter (\<lambda>e. fst e \<le> MAX_CONFIDENCE) (takeWhile (\<lambda>e. MIN_CONFIDENCE \<le> fst e) xs))"
  by (induction xs rule: filter_loop.induct) (auto simp: emit_def)

lemma filter_loop_sorted:
  "sorted_wrt (\<ge>) (map fst xs) \<Longrightarrow> filter_loop xs = map emit (filter in_band xs)"
proof (induction xs rule: filter_loop.induct)
  case 1
  then show ?case by simp
next
  case (2 conf cid rest)
  show ?case
  proof (cases "conf < MIN_CONFIDENCE")
    case True
    from 2(3) have "\<forall>e\<in>set rest. fst e \<le> conf" by auto
    with True have "filter in_band rest = []"
      by (auto simp: in_band_def filter_empty_conv)
    moreover from True have "\<not> in_band (conf, cid)" by (simp add: in_band_def)
    ultimately show ?thesis using True by simp
  next
    case False
    with 2 show ?thesis by (auto simp: in_band_def emit_def)
  qed
qed

lemma filter_loop_length: "length (filter_loop xs) \<le> length xs"
  by (induction xs rule: filter_loop.induct) auto

lemma filter_loop_member:
  "p \<in> set (filter_loop xs) \<Longrightarrow> \<exists>e\<in>set xs. in_band e \<and> p = emit e"
  unfolding filter_loop_early_exit
  by (auto simp: in_band_def dest: set_takeWhileD)

section \<open>Rounding\<close>

lemma round_half_even_bounds:
  "y - 1 / 2 \<le> of_int (round_half_even y) \<and> of_int (round_half_even y) \<le> y + 1 / 2"
  unfolding round_half_even_def Let_def by (auto; linarith)

lemma round_half_even_ge_int: "of_int n \<le> y \<Longrightarrow> n \<le> round_half_even y"
  unfolding round_half_even_def Let_def by (auto simp: le_floor_iff; linarith)

lemma round_half_even_le_int:
  assumes h: "y \<le> of_int n"
  shows "round_half_even y \<le> n"
proof -
  from h have f: "\<lfloor>y\<rfloor> \<le> n" by (simp add: floor_le_iff)
  show ?thesis
  proof (cases "\<lfloor>y\<rfloor> = n")
    case True
    then have "y = of_int n" using h of_int_floor_le[of y] by linarith
    then show ?thesis unfolding round_half_even_def Let_def by simp
  next
    case False
    with f have "\<lfloor>y\<rfloor> + 1 \<le> n" by simp
    then show ?thesis unfolding round_half_even_def Let_def by auto
  qed
qed

lemma py_round_1_range:
  assumes "2 / 5 \<le> conf" "conf \<le> 1"
  shows "40 \<le> py_round (conf * 100) 1 \<and> py_round (conf * 100) 1 \<le> 100"
proof -
  have "of_int 400 \<le> conf * 100 * 10" using assms by simp
  then have a: "400 \<le> round_half_even (conf * 100 * 10)" by (rule round_half_even_ge_int)
  have "conf * 100 * 10 \<le> of_int 1000" using assms by simp
  then have b: "round_half_even (conf * 100 * 10) \<le> 1000" by (rule round_half_even_le_int)
  from a b show ?thesis unfolding py_round_def by (simp add: le_divide_eq divide_le_eq)
qed

lemma py_round_1_close: "\<bar>py_round x 1 - x\<bar> \<le> 1 / 20"
proof -
  define r :: real where "r = of_int (round_half_even (x * 10))"
  from round_half_even_bounds[of "x * 10"]
  have "x * 10 - 1 / 2 \<le> r" and "r \<le> x * 10 + 1 / 2" by (simp_all add: r_def)
  then have "\<bar>r / 10 - x\<bar> \<le> 1 / 20" by linarith
  then show ?thesis unfolding py_round_def r_def by simp
qed

lemma py_round_1_tenths: "\<exists>n::int. py_round x 1 = of_int n / 10"
  unfolding py_round_def by auto

lemma round_half_even_floor: "\<lfloor>y\<rfloor> \<le> round_half_even y \<and> round_half_even y \<le> \<lfloor>y\<rfloor> + 1"
  unfolding round_half_even_def Let_def by auto

lemma round_half_even_mono:
  assumes xy: "x \<le> y"
  shows "round_half_even x \<le> round_half_even y"
proof (cases "\<lfloor>x\<rfloor> = \<lfloor>y\<rfloor>")
  case True
  from xy have "x - of_int \<lfloor>y\<rfloor> \<le> y - of_int \<lfloor>y\<rfloor>" by simp
  then show ?thesis unfolding round_half_even_def Let_def True by auto
next
  case False
  moreover from xy have "\<lfloor>x\<rfloor> \<le> \<lfloor>y\<rfloor>" by (rule floor_mono)
  ultimately have "\<lfloor>x\<rfloor> + 1 \<le> \<lfloor>y\<rfloor>" by simp
  then show ?thesis
    using round_half_even_floor[of x] round_half_even_floor[of y] by linarith
qed

lemma py_round_mono: "x \<le> y \<Longrightarrow> py_round x n \<le> py_round y n"
proof -
  assume xy: "x \<le> y"
  then have "x * 10 ^ n \<le> y * 10 ^ n" by simp
  then have "round_half_even (x * 10 ^ n) \<le> round_half_even (y * 10 ^ n)"
    by (rule round_half_even_mono)
  then show ?thesis unfolding py_round_def by (simp add: divide_right_mono)
qed

section \<open>Ranking\<close>

lemma length_ranked: "length (ranked input) = length input"
  by (simp add: ranked_def)

lemma set_ranked: "set (ranked input) = set (zip input [0..<length input])"
  by (simp add: ranked_def)

lemma distinct_ids_ranked: "distinct (map snd (ranked input))"
proof -
  let ?z = "zip input [0..<length input]"
  have "map snd ?z = [0..<length input]" by simp
  then have "distinct (map snd ?z)" by (metis distinct_upt)
  then have "distinct ?z" "inj_on snd (set ?z)" by (simp_all only: distinct_map)
  then show ?thesis unfolding ranked_def by (simp add: distinct_map)
qed

lemma ranked_entry: "(p, i) \<in> set (ranked input) \<longleftrightarrow> i < length input \<and> input ! i = p"
  unfolding set_ranked by (auto simp: set_zip)

lemma ranked_sorted: "sorted_wrt (\<ge>) (map fst (ranked input))"
proof -
  have "sorted (map (\<lambda>(v, i). - v) (ranked input))"
    unfolding ranked_def by (rule sorted_sort_key)
  then have "sorted_wrt (\<lambda>a b. (case a of (v, i) \<Rightarrow> - v) \<le> (case b of (v, i) \<Rightarrow> - v)) (ranked input)"
    by (simp add: sorted_wrt_map)
  then have "sorted_wrt (\<lambda>a b. fst a \<ge> fst b) (ranked input)"
    by (rule sorted_wrt_mono_rel[rotated]) auto
  then show ?thesis by (simp add: sorted_wrt_map)
qed

lemma fst_set_ranked: "fst ` set (ranked input) = set input"
proof -
  have "map fst (zip input [0..<length input]) = input" by simp
  then have "set (map fst (zip input [0..<length input])) = set input" by simp
  then show ?thesis unfolding set_ranked by (simp only: set_map)
qed

lemma hd_ranked_Max:
  assumes "input \<noteq> []"
  shows "fst (hd (ranked input)) = Max (set input)"
proof -
  have ne: "ranked input \<noteq> []" using assms length_ranked[of input] by auto
  then obtain e rest where r: "ranked input = e # rest" by (cases "ranked input") auto
  have s: "\<forall>x\<in>set rest. fst x \<le> fst e" using ranked_sorted[of input] r by auto
  have "Max (set input) = fst e"
  proof (rule Max_eqI)
    show "finite (set input)" by simp
    show "fst e \<in> set input" using fst_set_ranked[of input] r by force
    fix y assume "y \<in> set input"
    then obtain x where "x \<in> set (ranked input)" "y = fst x" using fst_set_ranked[of input] by force
    then show "y \<le> fst e" using s r by auto
  qed
  then show ?thesis using r by simp
qed

lemma sorted_take_drop:
  assumes "sorted_wrt (\<ge>) (map fst (xs :: (real \<times> nat) list))"
  shows "\<forall>x\<in>set (take k xs). \<forall>y\<in>set (drop k xs). fst y \<le> fst x"
proof -
  have "sorted_wrt (\<lambda>a b. fst a \<ge> fst b) (take k xs @ drop k xs)"
    using assms by (simp add: sorted_wrt_map)
  then show ?thesis unfolding sorted_wrt_append by blast
qed

section \<open>predict_image on its paths\<close>

lemma topk_50:
  "50 \<le> length probs \<Longrightarrow> topk probs 50 = Inr (map fst (top_entries probs), map snd (top_entries probs))"
  by (simp add: topk_def top_entries_def)

lemma predict_image_valid:
  assumes "image_open b = Inr img" "softmax_model img = Inr probs" "50 \<le> length probs"
  shows "predict_image image_open softmax_model b = Inr (filter_loop (top_entries probs))"
  using assms by (simp add: predict_image_def predict_image_try_def topk_50 zip_map_fst_snd)

lemma predict_image_Inr:
  assumes "predict_image image_open softmax_model b = Inr ps"
  shows "\<exists>img probs. image_open b = Inr img \<and> softmax_model img = Inr probs \<and> 50 \<le> length probs
           \<and> ps = filter_loop (top_entries probs)"
  using assms
  by (auto simp: predict_image_def predict_image_try_def topk_def top_entries_def zip_map_fst_snd
           split: sum.splits if_splits)

lemma sample_result:
  "predict_image sample_open sample_model [1] =
     Inr [\<lparr>class_name = ''goldfish'', confidence = 50\<rparr>,
          \<lparr>class_name = ''great white shark'', confidence = 45\<rparr>]"
  by code_simp


section \<open>The top 50 and the band\<close>

lemma top_entries_length: "50 \<le> length probs \<Longrightarrow> length (top_entries probs) = 50"
  by (simp add: top_entries_def length_ranked)

lemma top_entries_sorted: "sorted_wrt (\<ge>) (map fst (top_entries probs))"
  unfolding top_entries_def take_map[symmetric] using ranked_sorted by (rule sorted_wrt_take)

lemma top_entries_subset: "set (top_entries probs) \<subseteq> set (ranked probs)"
  unfolding top_entries_def by (rule set_take_subset)

lemma top_entries_distinct: "distinct (map snd (top_entries probs))"
  unfolding top_entries_def take_map[symmetric] using distinct_ids_ranked by (rule distinct_take)

lemma top_entries_entry:
  "e \<in> set (top_entries probs) \<Longrightarrow> snd e < length probs \<and> probs ! snd e = fst e"
  using top_entries_subset[of probs] ranked_entry[of "fst e" "snd e" probs] by auto

lemma top_entries_dominate:
  assumes j: "j < length probs" and out: "j \<notin> snd ` set (top_entries probs)"
    and e: "e \<in> set (top_entries probs)"
  shows "probs ! j \<le> fst e"
proof -
  from j have "(probs ! j, j) \<in> set (ranked probs)" by (simp add: ranked_entry)
  then have "(probs ! j, j) \<in> set (take 50 (ranked probs)) \<union> set (drop 50 (ranked probs))"
    by (simp only: set_append[symmetric] append_take_drop_id)
  moreover from out have "(probs ! j, j) \<notin> set (take 50 (ranked probs))"
    unfolding top_entries_def by force
  ultimately have "(probs ! j, j) \<in> set (drop 50 (ranked probs))" by simp
  with sorted_take_drop[OF ranked_sorted, of 50 probs] e
  show ?thesis unfolding top_entries_def by force
qed

lemma sorted_desc_filter:
  "sorted_wrt (\<ge>) (map fst xs) \<Longrightarrow> sorted_wrt (\<ge>) (map fst (filter P (xs :: (real \<times> nat) list)))"
  by (simp add: sorted_wrt_map sorted_wrt_filter)

lemma sorted_desc_confidence:
  assumes "sorted_wrt (\<ge>) (map fst (xs :: (real \<times> nat) list))"
  shows "sorted_wrt (\<ge>) (map confidence (map emit xs))"
proof -
  from assms have "sorted_wrt (\<lambda>a b. fst b \<le> fst a) xs" by (simp add: sorted_wrt_map)
  then have "sorted_wrt (\<lambda>a b. confidence (emit b) \<le> confidence (emit a)) xs"
    by (rule sorted_wrt_mono_rel[rotated]) (simp add: emit_def py_round_mono)
  then show ?thesis by (simp add: sorted_wrt_map)
qed

text \<open>
  Claim C1. For an image that decodes and a network that returns at least 50 class
  probabilities, \<open>predict_image\<close> returns the formatted entries of the 50
  highest-probability classes whose probability lies in \<open>[0.40, 1.00]\<close>, exactly
  those, in descending order of probability. The result is the one of the early exit:
  the entries before the first one below 0.40, without those above 1.00. The 50 entries
  are 50 different classes with their own probabilities, and no class outside them has
  a higher probability than one of them.
\<close>

theorem predict_image_top50_band:
  assumes "image_open b = Inr img" and "softmax_model img = Inr probs" and "50 \<le> length probs"
  shows "predict_image image_open softmax_model b = Inr (map emit (filter in_band (top_entries probs)))
    \<and> map emit (filter in_band (top_entries probs)) =
        map emit (filter (\<lambda>e. fst e \<le> MAX_CONFIDENCE)
                    (takeWhile (\<lambda>e. MIN_CONFIDENCE \<le> fst e) (top_entries probs)))
    \<and> length (top_entries probs) = 50
    \<and> distinct (map snd (top_entries probs))
    \<and> (\<forall>e\<in>set (top_entries probs). snd e < length probs \<and> probs ! snd e = fst e)
    \<and> (\<forall>j<length probs. j \<notin> snd ` set (top_entries probs) \<longrightarrow>
          (\<forall>e\<in>set (top_entries probs). probs ! j \<le> fst e))
    \<and> sorted_wrt (\<ge>) (map fst (top_entries probs))
    \<and> sorted_wrt (\<ge>) (map fst (filter in_band (top_entries probs)))
    \<and> sorted_wrt (\<ge>) (map confidence (map emit (filter in_band (top_entries probs))))"
proof -
  have loop: "filter_loop (top_entries probs) = map emit (filter in_band (top_entries probs))"
    using top_entries_sorted by (rule filter_loop_sorted)
  have c1: "predict_image image_open softmax_model b = Inr (map emit (filter in_band (top_entries probs)))"
    using predict_image_valid[where image_open = image_open and b = b and img = img
        and softmax_model = softmax_model and probs = probs, OF assms] loop by simp
  have c2: "map emit (filter in_band (top_entries probs)) =
        map emit (filter (\<lambda>e. fst e \<le> MAX_CONFIDENCE)
                    (takeWhile (\<lambda>e. MIN_CONFIDENCE \<le> fst e) (top_entries probs)))"
    using loop filter_loop_early_exit[of "top_entries probs"] by simp
  have c3: "length (top_entries probs) = 50" using assms(3) by (rule top_entries_length)
  have c5: "\<forall>e\<in>set (top_entries probs). snd e < length probs \<and> probs ! snd e = fst e"
    using top_entries_entry by blast
  have c6: "\<forall>j<length probs. j \<notin> snd ` set (top_entries probs) \<longrightarrow>
          (\<forall>e\<in>set (top_entries probs). probs ! j \<le> fst e)"
    using top_entries_dominate by blast
  have c8: "sorted_wrt (\<ge>) (map fst (filter in_band (top_entries probs)))"
    using top_entries_sorted by (rule sorted_desc_filter)
  have c9: "sorted_wrt (\<ge>) (map confidence (map emit (filter in_band (top_entries probs))))"
    using c8 by (rule sorted_desc_confidence)
  from c1 c2 c3 top_entries_distinct c5 c6 top_entries_sorted c8 c9 show ?thesis
    by (intro conjI)
qed

lemma sample_open_ok: "sample_open [1] = Inr ()"
  by (simp add: sample_open_def)

lemma sample_probs_length: "50 \<le> length sample_probs"
  by (simp add: sample_probs_def)

lemma sample_band:
  "map emit (filter in_band (top_entries sample_probs)) =
     [\<lparr>class_name = ''goldfish'', confidence = 50\<rparr>,
      \<lparr>class_name = ''great white shark'', confidence = 45\<rparr>]"
  by code_simp

theorem predict_image_top50_band_witness:
  "sample_open [1] = Inr () \<and> sample_model () = Inr sample_probs \<and> 50 \<le> length sample_probs
   \<and> predict_image sample_open sample_model [1] =
       Inr [\<lparr>class_name = ''goldfish'', confidence = 50\<rparr>,
            \<lparr>class_name = ''great white shark'', confidence = 45\<rparr>]"
proof -
  have m: "sample_model () = Inr sample_probs" by (simp add: sample_model_def)
  from predict_image_top50_band[where image_open = sample_open and b = "[1]" and img = "()"
      and softmax_model = sample_model and probs = sample_probs, OF sample_open_ok m sample_probs_length]
  have "predict_image sample_open sample_model [1] =
          Inr (map emit (filter in_band (top_entries sample_probs)))"
    by (rule conjunct1)
  then have "predict_image sample_open sample_model [1] =
       Inr [\<lparr>class_name = ''goldfish'', confidence = 50\<rparr>,
            \<lparr>class_name = ''great white shark'', confidence = 45\<rparr>]"
    by (simp only: sample_band)
  with sample_open_ok m sample_probs_length show ?thesis by (intro conjI)
qed


section \<open>Reported confidences\<close>

lemma band_bounds: "in_band e \<Longrightarrow> 2 / 5 \<le> fst e \<and> fst e \<le> 1"
  by (simp add: in_band_def MIN_CONFIDENCE_def MAX_CONFIDENCE_def)

text \<open>
  Claim C2. Every confidence in a list that \<open>predict_image\<close> returns lies in
  \<open>[40.0, 100.0]\<close> and is a multiple of one tenth: it is the percentage of an in-band
  probability rounded to one decimal place, at most 0.05 away from that percentage.
\<close>

theorem confidence_range:
  assumes "predict_image image_open softmax_model b = Inr ps" and "p \<in> set ps"
  shows "40 \<le> confidence p \<and> confidence p \<le> 100
    \<and> (\<exists>n::int. confidence p = of_int n / 10)
    \<and> (\<exists>conf. MIN_CONFIDENCE \<le> conf \<and> conf \<le> MAX_CONFIDENCE
           \<and> confidence p = py_round (conf * 100) 1
           \<and> \<bar>confidence p - conf * 100\<bar> \<le> 1 / 20)"
proof -
  from predict_image_Inr[OF assms(1)] obtain probs where "ps = filter_loop (top_entries probs)"
    by auto
  with assms(2) obtain e where e: "in_band e" "p = emit e"
    using filter_loop_member by blast
  from e(2) have c: "confidence p = py_round (fst e * 100) 1" by (simp add: emit_def)
  from band_bounds[OF e(1)] have r: "40 \<le> confidence p \<and> confidence p \<le> 100"
    unfolding c using py_round_1_range by simp
  have t: "\<exists>n::int. confidence p = of_int n / 10"
    unfolding c by (rule py_round_1_tenths)
  have "MIN_CONFIDENCE \<le> fst e \<and> fst e \<le> MAX_CONFIDENCE
           \<and> confidence p = py_round (fst e * 100) 1
           \<and> \<bar>confidence p - fst e * 100\<bar> \<le> 1 / 20"
    using e(1) c py_round_1_close[of "fst e * 100"] by (simp add: in_band_def)
  then have x: "\<exists>conf. MIN_CONFIDENCE \<le> conf \<and> conf \<le> MAX_CONFIDENCE
           \<and> confidence p = py_round (conf * 100) 1
           \<and> \<bar>confidence p - conf * 100\<bar> \<le> 1 / 20" by (rule exI)
  from r t x show ?thesis by (intro conjI) simp_all
qed

theorem confidence_range_witness:
  "predict_image sample_open sample_model [1] =
     Inr [\<lparr>class_name = ''goldfish'', confidence = 50\<rparr>,
          \<lparr>class_name = ''great white shark'', confidence = 45\<rparr>]
   \<and> \<lparr>class_name = ''great white shark'', confidence = 45\<rparr>
        \<in> set [\<lparr>class_name = ''goldfish'', confidence = 50\<rparr>,
                \<lparr>class_name = ''great white shark'', confidence = 45\<rparr>]
   \<and> 40 \<le> confidence \<lparr>class_name = ''great white shark'', confidence = 45\<rparr>
   \<and> confidence \<lparr>class_name = ''great white shark'', confidence = 45\<rparr> \<le> 100"
proof -
  have m: "\<lparr>class_name = ''great white shark'', confidence = 45\<rparr>
        \<in> set [\<lparr>class_name = ''goldfish'', confidence = 50\<rparr>,
                \<lparr>class_name = ''great white shark'', confidence = 45\<rparr>]"
    by simp
  from confidence_range[OF sample_result m]
  have "40 \<le> confidence \<lparr>class_name = ''great white shark'', confidence = 45\<rparr>
        \<and> confidence \<lparr>class_name = ''great white shark'', confidence = 45\<rparr> \<le> 100"
    by (elim conjE) (intro conjI)
  with sample_result m show ?thesis by (intro conjI) (elim conjE, assumption)+
qed

section \<open>A top prediction below the threshold\<close>

lemma filter_loop_first_below:
  "xs \<noteq> [] \<Longrightarrow> fst (hd xs) < MIN_CONFIDENCE \<Longrightarrow> filter_loop xs = []"
  by (cases xs) auto

lemma hd_top_entries: "probs \<noteq> [] \<Longrightarrow> hd (top_entries probs) = hd (ranked probs)"
  unfolding top_entries_def using length_ranked[of probs] by (cases "ranked probs") auto

text \<open>
  Claim C3. When the highest probability of a valid image is below 0.40, the first
  ranked entry is that probability and \<open>predict_image\<close> returns the empty list.
\<close>

theorem top_below_threshold_empty:
  assumes "image_open b = Inr img" and "softmax_model img = Inr probs" and "50 \<le> length probs"
    and "Max (set probs) < MIN_CONFIDENCE"
  shows "fst (hd (top_entries probs)) = Max (set probs)
    \<and> predict_image image_open softmax_model b = Inr []"
proof -
  from assms(3) have ne: "probs \<noteq> []" by auto
  then have h: "fst (hd (top_entries probs)) = Max (set probs)"
    by (simp add: hd_top_entries hd_ranked_Max)
  from assms(3) have "length (top_entries probs) = 50" by (rule top_entries_length)
  then have "top_entries probs \<noteq> []" by auto
  then have "filter_loop (top_entries probs) = []"
    using h assms(4) by (simp add: filter_loop_first_below)
  then have "predict_image image_open softmax_model b = Inr []"
    using predict_image_valid[where image_open = image_open and b = b and img = img
        and softmax_model = softmax_model and probs = probs, OF assms(1-3)] by simp
  with h show ?thesis by (intro conjI)
qed

lemma flat_probs_length: "50 \<le> length flat_probs"
  by (simp add: flat_probs_def)

lemma flat_probs_Max: "Max (set flat_probs) < MIN_CONFIDENCE"
  by (simp add: flat_probs_def MIN_CONFIDENCE_def)

theorem top_below_threshold_empty_witness:
  "sample_open [1] = Inr () \<and> flat_model () = Inr flat_probs \<and> 50 \<le> length flat_probs
   \<and> Max (set flat_probs) < MIN_CONFIDENCE
   \<and> predict_image sample_open flat_model [1] = Inr []"
proof -
  have m: "flat_model () = Inr flat_probs" by (simp add: flat_model_def)
  from top_below_threshold_empty[where image_open = sample_open and b = "[1]" and img = "()"
      and softmax_model = flat_model and probs = flat_probs,
      OF sample_open_ok m flat_probs_length flat_probs_Max]
  have "predict_image sample_open flat_model [1] = Inr []" by (rule conjunct2)
  with sample_open_ok m flat_probs_length flat_probs_Max show ?thesis by (intro conjI)
qed

section \<open>Entries above the band\<close>

lemma filter_loop_continues:
  "\<not> conf < MIN_CONFIDENCE \<Longrightarrow> \<exists>pre. filter_loop ((conf, cid) # rest) = pre @ filter_loop rest"
  by (cases "conf \<le> MAX_CONFIDENCE") auto

lemma predict_image_length:
  assumes "predict_image image_open softmax_model b = Inr ps"
  shows "length ps \<le> 50"
proof -
  from predict_image_Inr[OF assms] obtain probs
    where "50 \<le> length probs" "ps = filter_loop (top_entries probs)" by auto
  then show ?thesis using filter_loop_length[of "top_entries probs"] top_entries_length[of probs]
    by simp
qed

lemma skip_example:
  "filter_loop [(3 / 2, 3), (1 / 2, 282)] = [\<lparr>class_name = ''tiger cat'', confidence = 50\<rparr>]"
  by code_simp

text \<open>
  Claim C10. In the loop an entry above 1.00 is passed over and the iteration goes on:
  an in-range entry after it is still emitted. Only an entry below 0.40 ends the loop.
  The loop emits at most one prediction per entry, so \<open>predict_image\<close> never returns
  more than 50.
\<close>

theorem above_max_skipped:
  "(MAX_CONFIDENCE < conf \<longrightarrow> filter_loop ((conf, cid) # rest) = filter_loop rest)
   \<and> (conf < MIN_CONFIDENCE \<longrightarrow> filter_loop ((conf, cid) # rest) = [])
   \<and> (\<not> conf < MIN_CONFIDENCE \<longrightarrow> (\<exists>pre. filter_loop ((conf, cid) # rest) = pre @ filter_loop rest))
   \<and> filter_loop [(3 / 2, 3), (1 / 2, 282)] = [\<lparr>class_name = ''tiger cat'', confidence = 50\<rparr>]
   \<and> length (filter_loop xs) \<le> length xs
   \<and> (predict_image image_open softmax_model b = Inr ps \<longrightarrow> length ps \<le> 50)"
proof -
  have a: "MAX_CONFIDENCE < conf \<longrightarrow> filter_loop ((conf, cid) # rest) = filter_loop rest"
    by (simp add: MIN_CONFIDENCE_def MAX_CONFIDENCE_def)
  have b: "conf < MIN_CONFIDENCE \<longrightarrow> filter_loop ((conf, cid) # rest) = []"
    by simp
  have c: "\<not> conf < MIN_CONFIDENCE \<longrightarrow> (\<exists>pre. filter_loop ((conf, cid) # rest) = pre @ filter_loop rest)"
    using filter_loop_continues by blast
  have d: "predict_image image_open softmax_model b = Inr ps \<longrightarrow> length ps \<le> 50"
    using predict_image_length by blast
  from a b c skip_example filter_loop_length d show ?thesis by (intro conjI)
qed

theorem above_max_skipped_witness:
  "MAX_CONFIDENCE < 3 / 2
   \<and> filter_loop [(3 / 2, 3), (1 / 2, 282)] = filter_loop [(1 / 2, 282)]
   \<and> filter_loop [(1 / 2, 282)] = [\<lparr>class_name = ''tiger cat'', confidence = 50\<rparr>]
   \<and> (3 / 10 :: real) < MIN_CONFIDENCE
   \<and> filter_loop [(3 / 10, 3), (1 / 2, 282)] = []
   \<and> predict_image sample_open sample_model [1] =
        Inr [\<lparr>class_name = ''goldfish'', confidence = 50\<rparr>,
             \<lparr>class_name = ''great white shark'', confidence = 45\<rparr>]
   \<and> length [\<lparr>class_name = ''goldfish'', confidence = 50\<rparr>,
              \<lparr>class_name = ''great white shark'', confidence = 45\<rparr>] \<le> 50"
proof -
  have h1: "MAX_CONFIDENCE < 3 / 2" by (simp add: MAX_CONFIDENCE_def)
  have h2: "(3 / 10 :: real) < MIN_CONFIDENCE" by (simp add: MIN_CONFIDENCE_def)
  have r: "filter_loop [(1 / 2, 282)] = [\<lparr>class_name = ''tiger cat'', confidence = 50\<rparr>]"
    by code_simp
  from above_max_skipped[of "3 / 2" 3 "[(1 / 2, 282)]", THEN conjunct1] h1
  have s1: "filter_loop [(3 / 2, 3), (1 / 2, 282)] = filter_loop [(1 / 2, 282)]"
    by (rule mp)
  from above_max_skipped[of "3 / 10" 3 "[(1 / 2, 282)]", THEN conjunct2, THEN conjunct1] h2
  have s2: "filter_loop [(3 / 10, 3), (1 / 2, 282)] = []"
    by (rule mp)
  from above_max_skipped[where image_open = sample_open and softmax_model = sample_model
      and b = "[1]" and ps = "[\<lparr>class_name = ''goldfish'', confidence = 50\<rparr>,
              \<lparr>class_name = ''great white shark'', confidence = 45\<rparr>]",
      THEN conjunct2, THEN conjunct2, THEN conjunct2, THEN conjunct2, THEN conjunct2]
    sample_result
  have s3: "length [\<lparr>class_name = ''goldfish'', confidence = 50\<rparr>,
              \<lparr>class_name = ''great white shark'', confidence = 45\<rparr>] \<le> 50"
    by (rule mp)
  from h1 s1 r h2 s2 sample_result s3 show ?thesis by (intro conjI)
qed


section \<open>The upload view\<close>

lemma predict_missing:
  "map_of (files req) ''file'' = None \<Longrightarrow>
     predict image_open softmax_model req =
       (\<lparr>status = 200,
         body = JObj [(''success'', JBool False), (''error'', JStr ''No file uploaded'')]\<rparr>, [])"
  by (simp add: predict_def jsonify_def)

lemma predict_unnamed:
  "map_of (files req) ''file'' = Some upload \<Longrightarrow> filename upload = [] \<Longrightarrow>
     predict image_open softmax_model req =
       (\<lparr>status = 200,
         body = JObj [(''success'', JBool False), (''error'', JStr ''No file selected'')]\<rparr>, [])"
  by (simp add: predict_def jsonify_def)

lemma predict_failed:
  "map_of (files req) ''file'' = Some upload \<Longrightarrow> filename upload \<noteq> [] \<Longrightarrow>
   predict_image image_open softmax_model (content upload) = Inl e \<Longrightarrow>
     predict image_open softmax_model req =
       (\<lparr>status = 200, body = JObj [(''success'', JBool False), (''error'', JStr e)]\<rparr>,
        [content upload])"
  by (simp add: predict_def jsonify_def)

lemma predict_succeeded:
  "map_of (files req) ''file'' = Some upload \<Longrightarrow> filename upload \<noteq> [] \<Longrightarrow>
   predict_image image_open softmax_model (content upload) = Inr ps \<Longrightarrow>
     predict image_open softmax_model req =
       (\<lparr>status = 200,
         body = JObj [(''success'', JBool True), (''predictions'', JArr (map prediction_json ps))]\<rparr>,
        [content upload])"
  by (simp add: predict_def jsonify_def)

lemma predict_image_decode_error:
  "image_open b = Inl msg \<Longrightarrow> predict_image image_open softmax_model b = Inl (''Error: '' @ msg)"
  by (simp add: predict_image_def predict_image_try_def)

lemma predict_image_model_error:
  "image_open b = Inr img \<Longrightarrow> softmax_model img = Inl msg \<Longrightarrow>
     predict_image image_open softmax_model b = Inl (''Error: '' @ msg)"
  by (simp add: predict_image_def predict_image_try_def)

lemma predict_image_Inl:
  "predict_image image_open softmax_model b = Inl e \<Longrightarrow>
     \<exists>msg. predict_image_try image_open softmax_model b = Inl msg \<and> e = ''Error: '' @ msg"
  by (auto simp: predict_image_def split: sum.splits)

lemma no_file_request: "map_of (files \<lparr>files = [(''photo'', sample_file)]\<rparr>) ''file'' = None"
  by simp

lemma unnamed_request:
  "map_of (files \<lparr>files = [(''file'', unnamed_file)]\<rparr>) ''file'' = Some unnamed_file"
  by simp

lemma unnamed_file_name: "filename unnamed_file = []"
  by (simp add: unnamed_file_def)

lemma empty_request:
  "map_of (files \<lparr>files = [(''file'', empty_file)]\<rparr>) ''file'' = Some empty_file"
  by simp

lemma empty_file_name: "filename empty_file \<noteq> []"
  by (simp add: empty_file_def)

lemma empty_file_undecodable: "sample_open (content empty_file) = Inl ''cannot identify image file''"
  by (simp add: empty_file_def sample_open_def)

lemma sample_request:
  "map_of (files \<lparr>files = [(''file'', sample_file)]\<rparr>) ''file'' = Some sample_file"
  by simp

lemma sample_file_name: "filename sample_file \<noteq> []"
  by (simp add: sample_file_def)

lemma sample_file_decodes: "sample_open (content sample_file) = Inr ()"
  by (simp add: sample_file_def sample_open_def)

lemma failing_model_raises: "failing_model () = Inl ''out of memory''"
  by (simp add: failing_model_def)

text \<open>
  Claim C5. A request without a \<open>file\<close> field gets exactly the body with
  \<open>success\<close> false and the error \<open>No file uploaded\<close>; a request whose file has an empty
  filename gets the error \<open>No file selected\<close>. In both cases \<open>predict_image\<close> is not
  called.
\<close>

theorem predict_missing_or_unnamed:
  "(map_of (files req) ''file'' = None \<longrightarrow>
      predict image_open softmax_model req =
        (\<lparr>status = 200,
          body = JObj [(''success'', JBool False), (''error'', JStr ''No file uploaded'')]\<rparr>, []))
   \<and> (map_of (files req) ''file'' = Some upload \<and> filename upload = [] \<longrightarrow>
      predict image_open softmax_model req =
        (\<lparr>status = 200,
          body = JObj [(''success'', JBool False), (''error'', JStr ''No file selected'')]\<rparr>, []))"
proof (intro conjI impI)
  assume "map_of (files req) ''file'' = None"
  then show "predict image_open softmax_model req =
        (\<lparr>status = 200,
          body = JObj [(''success'', JBool False), (''error'', JStr ''No file uploaded'')]\<rparr>, [])"
    by (rule predict_missing)
next
  assume "map_of (files req) ''file'' = Some upload \<and> filename upload = []"
  then have "map_of (files req) ''file'' = Some upload" and "filename upload = []"
    by (rule conjunct1, rule conjunct2)
  then show "predict image_open softmax_model req =
        (\<lparr>status = 200,
          body = JObj [(''success'', JBool False), (''error'', JStr ''No file selected'')]\<rparr>, [])"
    by (rule predict_unnamed)
qed

theorem predict_missing_or_unnamed_witness:
  "map_of (files \<lparr>files = [(''photo'', sample_file)]\<rparr>) ''file'' = None
   \<and> predict sample_open sample_model \<lparr>files = [(''photo'', sample_file)]\<rparr> =
        (\<lparr>status = 200,
          body = JObj [(''success'', JBool False), (''error'', JStr ''No file uploaded'')]\<rparr>, [])
   \<and> map_of (files \<lparr>files = [(''file'', unnamed_file)]\<rparr>) ''file'' = Some unnamed_file
   \<and> filename unnamed_file = []
   \<and> predict sample_open sample_model \<lparr>files = [(''file'', unnamed_file)]\<rparr> =
        (\<lparr>status = 200,
          body = JObj [(''success'', JBool False), (''error'', JStr ''No file selected'')]\<rparr>, [])"
proof -
  from predict_missing_or_unnamed[where req = "\<lparr>files = [(''photo'', sample_file)]\<rparr>"
      and image_open = sample_open and softmax_model = sample_model, THEN conjunct1]
    no_file_request
  have a: "predict sample_open sample_model \<lparr>files = [(''photo'', sample_file)]\<rparr> =
        (\<lparr>status = 200,
          body = JObj [(''success'', JBool False), (''error'', JStr ''No file uploaded'')]\<rparr>, [])"
    by (rule mp)
  from unnamed_request unnamed_file_name
  have u: "map_of (files \<lparr>files = [(''file'', unnamed_file)]\<rparr>) ''file'' = Some unnamed_file
      \<and> filename unnamed_file = []" by (rule conjI)
  from predict_missing_or_unnamed[where req = "\<lparr>files = [(''file'', unnamed_file)]\<rparr>"
      and upload = unnamed_file
      and image_open = sample_open and softmax_model = sample_model, THEN conjunct2] u
  have b: "predict sample_open sample_model \<lparr>files = [(''file'', unnamed_file)]\<rparr> =
        (\<lparr>status = 200,
          body = JObj [(''success'', JBool False), (''error'', JStr ''No file selected'')]\<rparr>, [])"
    by (rule mp)
  from no_file_request a unnamed_request unnamed_file_name b show ?thesis by (intro conjI)
qed

text \<open>
  Claim C6. When the uploaded bytes do not decode, the response body has \<open>success\<close>
  false and as \<open>error\<close> the message of the decoding failure behind the prefix that
  \<open>predict_image\<close> adds; \<open>predict_image\<close> returns no list and the body has no
  \<open>predictions\<close> member.
\<close>

theorem predict_undecodable:
  assumes "map_of (files req) ''file'' = Some upload" and "filename upload \<noteq> []"
    and "image_open (content upload) = Inl msg"
  shows "predict image_open softmax_model req =
      (\<lparr>status = 200,
        body = JObj [(''success'', JBool False), (''error'', JStr (''Error: '' @ msg))]\<rparr>,
       [content upload])
    \<and> predict_image image_open softmax_model (content upload) = Inl (''Error: '' @ msg)
    \<and> json_get (body (fst (predict image_open softmax_model req))) ''predictions'' = None"
proof -
  from assms(3) have e: "predict_image image_open softmax_model (content upload) = Inl (''Error: '' @ msg)"
    by (rule predict_image_decode_error)
  from assms(1,2) e have r: "predict image_open softmax_model req =
      (\<lparr>status = 200,
        body = JObj [(''success'', JBool False), (''error'', JStr (''Error: '' @ msg))]\<rparr>,
       [content upload])"
    by (rule predict_failed)
  have "json_get (body (fst (predict image_open softmax_model req))) ''predictions'' = None"
    unfolding r by simp
  with r e show ?thesis by (intro conjI)
qed

theorem predict_undecodable_witness:
  "map_of (files \<lparr>files = [(''file'', empty_file)]\<rparr>) ''file'' = Some empty_file
   \<and> filename empty_file \<noteq> []
   \<and> sample_open (content empty_file) = Inl ''cannot identify image file''
   \<and> predict sample_open sample_model \<lparr>files = [(''file'', empty_file)]\<rparr> =
      (\<lparr>status = 200,
        body = JObj [(''success'', JBool False),
                     (''error'', JStr ''Error: cannot identify image file'')]\<rparr>,
       [[]])"
proof -
  from predict_undecodable[where req = "\<lparr>files = [(''file'', empty_file)]\<rparr>"
      and upload = empty_file and image_open = sample_open and softmax_model = sample_model
      and msg = "''cannot identify image file''",
      OF empty_request empty_file_name empty_file_undecodable, THEN conjunct1]
  have "predict sample_open sample_model \<lparr>files = [(''file'', empty_file)]\<rparr> =
      (\<lparr>status = 200,
        body = JObj [(''success'', JBool False),
                     (''error'', JStr ''Error: cannot identify image file'')]\<rparr>,
       [[]])"
    by (simp add: empty_file_def)
  with empty_request empty_file_name empty_file_undecodable show ?thesis by (intro conjI)
qed


section \<open>Error paths of the upload view\<close>

lemma failure_status_success:
  assumes "predict image_open softmax_model req =
      (\<lparr>status = 200, body = JObj [(''success'', JBool False), (''error'', JStr e)]\<rparr>, calls)"
  shows "status (fst (predict image_open softmax_model req)) = 200
    \<and> json_get (body (fst (predict image_open softmax_model req))) ''success'' = Some (JBool False)"
  unfolding assms by simp

lemma predict_status: "status (fst (predict image_open softmax_model req)) = 200"
  by (simp add: predict_def jsonify_def Let_def split: option.splits sum.splits)

text \<open>
  Claim C7. On each error path of the view (no \<open>file\<close> field, an empty filename, a
  decoding failure, a failure of the forward pass, any other exception of
  \<open>predict_image\<close>) the response has status 200 and a body whose \<open>success\<close> member is
  false. The status is 200 on every path.
\<close>

theorem error_paths_status_200:
  assumes "map_of (files req) ''file'' = None
    \<or> (\<exists>upload. map_of (files req) ''file'' = Some upload \<and>
          (filename upload = []
           \<or> (\<exists>e. image_open (content upload) = Inl e)
           \<or> (\<exists>img e. image_open (content upload) = Inr img \<and> softmax_model img = Inl e)
           \<or> (\<exists>e. predict_image image_open softmax_model (content upload) = Inl e)))"
  shows "status (fst (predict image_open softmax_model req)) = 200
    \<and> json_get (body (fst (predict image_open softmax_model req))) ''success'' = Some (JBool False)
    \<and> (\<forall>r. status (fst (predict image_open softmax_model r)) = 200)"
proof -
  have fail: "\<exists>e calls. predict image_open softmax_model req =
      (\<lparr>status = 200, body = JObj [(''success'', JBool False), (''error'', JStr e)]\<rparr>, calls)"
    using assms
  proof (elim disjE exE conjE)
    assume "map_of (files req) ''file'' = None"
    from predict_missing[OF this] show ?thesis by (intro exI)
  next
    fix upload
    assume "map_of (files req) ''file'' = Some upload" "filename upload = []"
    from predict_unnamed[OF this] show ?thesis by (intro exI)
  next
    fix upload e
    assume u: "map_of (files req) ''file'' = Some upload"
      and e: "predict_image image_open softmax_model (content upload) = Inl e"
    show ?thesis
    proof (cases "filename upload = []")
      case True
      from predict_unnamed[OF u True] show ?thesis by (intro exI)
    next
      case False
      from predict_failed[OF u False e] show ?thesis by (intro exI)
    qed
  next
    fix upload e
    assume u: "map_of (files req) ''file'' = Some upload"
      and d: "image_open (content upload) = Inl e"
    from d have e: "predict_image image_open softmax_model (content upload) = Inl (''Error: '' @ e)"
      by (rule predict_image_decode_error)
    show ?thesis
    proof (cases "filename upload = []")
      case True
      from predict_unnamed[OF u True] show ?thesis by (intro exI)
    next
      case False
      from predict_failed[OF u False e] show ?thesis by (intro exI)
    qed
  next
    fix upload img e
    assume u: "map_of (files req) ''file'' = Some upload"
      and d: "image_open (content upload) = Inr img" and m: "softmax_model img = Inl e"
    from d m have e: "predict_image image_open softmax_model (content upload) = Inl (''Error: '' @ e)"
      by (rule predict_image_model_error)
    show ?thesis
    proof (cases "filename upload = []")
      case True
      from predict_unnamed[OF u True] show ?thesis by (intro exI)
    next
      case False
      from predict_failed[OF u False e] show ?thesis by (intro exI)
    qed
  qed
  then obtain e calls where "predict image_open softmax_model req =
      (\<lparr>status = 200, body = JObj [(''success'', JBool False), (''error'', JStr e)]\<rparr>, calls)"
    by (elim exE)
  then have "status (fst (predict image_open softmax_model req)) = 200
    \<and> json_get (body (fst (predict image_open softmax_model req))) ''success'' = Some (JBool False)"
    by (rule failure_status_success)
  moreover have "\<forall>r. status (fst (predict image_open softmax_model r)) = 200"
    by (intro allI) (rule predict_status)
  ultimately show ?thesis by (elim conjE) (intro conjI)
qed


theorem error_paths_status_200_witness:
  "map_of (files \<lparr>files = [(''photo'', sample_file)]\<rparr>) ''file'' = None
   \<and> status (fst (predict sample_open sample_model \<lparr>files = [(''photo'', sample_file)]\<rparr>)) = 200
   \<and> json_get (body (fst (predict sample_open sample_model \<lparr>files = [(''photo'', sample_file)]\<rparr>)))
         ''success'' = Some (JBool False)
   \<and> map_of (files \<lparr>files = [(''file'', unnamed_file)]\<rparr>) ''file'' = Some unnamed_file
   \<and> filename unnamed_file = []
   \<and> status (fst (predict sample_open sample_model \<lparr>files = [(''file'', unnamed_file)]\<rparr>)) = 200
   \<and> json_get (body (fst (predict sample_open sample_model \<lparr>files = [(''file'', unnamed_file)]\<rparr>)))
         ''success'' = Some (JBool False)
   \<and> map_of (files \<lparr>files = [(''file'', empty_file)]\<rparr>) ''file'' = Some empty_file
   \<and> sample_open (content empty_file) = Inl ''cannot identify image file''
   \<and> status (fst (predict sample_open sample_model \<lparr>files = [(''file'', empty_file)]\<rparr>)) = 200
   \<and> json_get (body (fst (predict sample_open sample_model \<lparr>files = [(''file'', empty_file)]\<rparr>)))
         ''success'' = Some (JBool False)
   \<and> map_of (files \<lparr>files = [(''file'', sample_file)]\<rparr>) ''file'' = Some sample_file
   \<and> sample_open (content sample_file) = Inr () \<and> failing_model () = Inl ''out of memory''
   \<and> status (fst (predict sample_open failing_model \<lparr>files = [(''file'', sample_file)]\<rparr>)) = 200
   \<and> json_get (body (fst (predict sample_open failing_model \<lparr>files = [(''file'', sample_file)]\<rparr>)))
         ''success'' = Some (JBool False)"
proof -
  let ?missing = "\<lparr>files = [(''photo'', sample_file)]\<rparr>"
  let ?unnamed = "\<lparr>files = [(''file'', unnamed_file)]\<rparr>"
  let ?undecodable = "\<lparr>files = [(''file'', empty_file)]\<rparr>"
  let ?good = "\<lparr>files = [(''file'', sample_file)]\<rparr>"
  have h1: "map_of (files ?missing) ''file'' = None
    \<or> (\<exists>upload. map_of (files ?missing) ''file'' = Some upload \<and>
          (filename upload = []
           \<or> (\<exists>e. sample_open (content upload) = Inl e)
           \<or> (\<exists>img e. sample_open (content upload) = Inr img \<and> sample_model img = Inl e)
           \<or> (\<exists>e. predict_image sample_open sample_model (content upload) = Inl e)))"
    using no_file_request by (rule disjI1)
  have "filename unnamed_file = []
           \<or> (\<exists>e. sample_open (content unnamed_file) = Inl e)
           \<or> (\<exists>img e. sample_open (content unnamed_file) = Inr img \<and> sample_model img = Inl e)
           \<or> (\<exists>e. predict_image sample_open sample_model (content unnamed_file) = Inl e)"
    using unnamed_file_name by (rule disjI1)
  with unnamed_request have "map_of (files ?unnamed) ''file'' = Some unnamed_file \<and>
          (filename unnamed_file = []
           \<or> (\<exists>e. sample_open (content unnamed_file) = Inl e)
           \<or> (\<exists>img e. sample_open (content unnamed_file) = Inr img \<and> sample_model img = Inl e)
           \<or> (\<exists>e. predict_image sample_open sample_model (content unnamed_file) = Inl e))"
    by (rule conjI)
  then have "\<exists>upload. map_of (files ?unnamed) ''file'' = Some upload \<and>
          (filename upload = []
           \<or> (\<exists>e. sample_open (content upload) = Inl e)
           \<or> (\<exists>img e. sample_open (content upload) = Inr img \<and> sample_model img = Inl e)
           \<or> (\<exists>e. predict_image sample_open sample_model (content upload) = Inl e))"
    by (rule exI)
  then have h2: "map_of (files ?unnamed) ''file'' = None
    \<or> (\<exists>upload. map_of (files ?unnamed) ''file'' = Some upload \<and>
          (filename upload = []
           \<or> (\<exists>e. sample_open (content upload) = Inl e)
           \<or> (\<exists>img e. sample_open (content upload) = Inr img \<and> sample_model img = Inl e)
           \<or> (\<exists>e. predict_image sample_open sample_model (content upload) = Inl e)))"
    by (rule disjI2)
  have "\<exists>e. sample_open (content empty_file) = Inl e"
    using empty_file_undecodable by (rule exI)
  then have "(\<exists>e. sample_open (content empty_file) = Inl e)
           \<or> (\<exists>img e. sample_open (content empty_file) = Inr img \<and> sample_model img = Inl e)
           \<or> (\<exists>e. predict_image sample_open sample_model (content empty_file) = Inl e)"
    by (rule disjI1)
  then have "filename empty_file = []
           \<or> (\<exists>e. sample_open (content empty_file) = Inl e)
           \<or> (\<exists>img e. sample_open (content empty_file) = Inr img \<and> sample_model img = Inl e)
           \<or> (\<exists>e. predict_image sample_open sample_model (content empty_file) = Inl e)"
    by (rule disjI2)
  with empty_request have "map_of (files ?undecodable) ''file'' = Some empty_file \<and>
          (filename empty_file = []
           \<or> (\<exists>e. sample_open (content empty_file) = Inl e)
           \<or> (\<exists>img e. sample_open (content empty_file) = Inr img \<and> sample_model img = Inl e)
           \<or> (\<exists>e. predict_image sample_open sample_model (content empty_file) = Inl e))"
    by (rule conjI)
  then have "\<exists>upload. map_of (files ?undecodable) ''file'' = Some upload \<and>
          (filename upload = []
           \<or> (\<exists>e. sample_open (content upload) = Inl e)
           \<or> (\<exists>img e. sample_open (content upload) = Inr img \<and> sample_model img = Inl e)
           \<or> (\<exists>e. predict_image sample_open sample_model (content upload) = Inl e))"
    by (rule exI)
  then have h3: "map_of (files ?undecodable) ''file'' = None
    \<or> (\<exists>upload. map_of (files ?undecodable) ''file'' = Some upload \<and>
          (filename upload = []
           \<or> (\<exists>e. sample_open (content upload) = Inl e)
           \<or> (\<exists>img e. sample_open (content upload) = Inr img \<and> sample_model img = Inl e)
           \<or> (\<exists>e. predict_image sample_open sample_model (content upload) = Inl e)))"
    by (rule disjI2)
  from sample_file_decodes failing_model_raises
  have "sample_open (content sample_file) = Inr () \<and> failing_model () = Inl ''out of memory''"
    by (rule conjI)
  then have "\<exists>e. sample_open (content sample_file) = Inr () \<and> failing_model () = Inl e"
    by (rule exI)
  then have "\<exists>img e. sample_open (content sample_file) = Inr img \<and> failing_model img = Inl e"
    by (rule exI)
  then have "(\<exists>img e. sample_open (content sample_file) = Inr img \<and> failing_model img = Inl e)
           \<or> (\<exists>e. predict_image sample_open failing_model (content sample_file) = Inl e)"
    by (rule disjI1)
  then have "(\<exists>e. sample_open (content sample_file) = Inl e)
           \<or> (\<exists>img e. sample_open (content sample_file) = Inr img \<and> failing_model img = Inl e)
           \<or> (\<exists>e. predict_image sample_open failing_model (content sample_file) = Inl e)"
    by (rule disjI2)
  then have "filename sample_file = []
           \<or> (\<exists>e. sample_open (content sample_file) = Inl e)
           \<or> (\<exists>img e. sample_open (content sample_file) = Inr img \<and> failing_model img = Inl e)
           \<or> (\<exists>e. predict_image sample_open failing_model (content sample_file) = Inl e)"
    by (rule disjI2)
  with sample_request have "map_of (files ?good) ''file'' = Some sample_file \<and>
          (filename sample_file = []
           \<or> (\<exists>e. sample_open (content sample_file) = Inl e)
           \<or> (\<exists>img e. sample_open (content sample_file) = Inr img \<and> failing_model img = Inl e)
           \<or> (\<exists>e. predict_image sample_open failing_model (content sample_file) = Inl e))"
    by (rule conjI)
  then have "\<exists>upload. map_of (files ?good) ''file'' = Some upload \<and>
          (filename upload = []
           \<or> (\<exists>e. sample_open (content upload) = Inl e)
           \<or> (\<exists>img e. sample_open (content upload) = Inr img \<and> failing_model img = Inl e)
           \<or> (\<exists>e. predict_image sample_open failing_model (content upload) = Inl e))"
    by (rule exI)
  then have h4: "map_of (files ?good) ''file'' = None
    \<or> (\<exists>upload. map_of (files ?good) ''file'' = Some upload \<and>
          (filename upload = []
           \<or> (\<exists>e. sample_open (content upload) = Inl e)
           \<or> (\<exists>img e. sample_open (content upload) = Inr img \<and> failing_model img = Inl e)
           \<or> (\<exists>e. predict_image sample_open failing_model (content upload) = Inl e)))"
    by (rule disjI2)
  note r1 = error_paths_status_200[where req = ?missing and image_open = sample_open
      and softmax_model = sample_model, OF h1]
  note r2 = error_paths_status_200[where req = ?unnamed and image_open = sample_open
      and softmax_model = sample_model, OF h2]
  note r3 = error_paths_status_200[where req = ?undecodable and image_open = sample_open
      and softmax_model = sample_model, OF h3]
  note r4 = error_paths_status_200[where req = ?good and image_open = sample_open
      and softmax_model = failing_model, OF h4]
  from no_file_request r1[THEN conjunct1] r1[THEN conjunct2, THEN conjunct1]
    unnamed_request unnamed_file_name r2[THEN conjunct1] r2[THEN conjunct2, THEN conjunct1]
    empty_request empty_file_undecodable r3[THEN conjunct1] r3[THEN conjunct2, THEN conjunct1]
    sample_request sample_file_decodes failing_model_raises
    r4[THEN conjunct1] r4[THEN conjunct2, THEN conjunct1]
  show ?thesis by (intro conjI)
qed


section \<open>The prefix of error messages\<close>

text \<open>
  Claim C9. Every error that \<open>predict_image\<close> raises is the string \<open>Error: \<close> followed
  by the message of the exception raised inside its \<open>try\<close> block, be it a decoding or
  an inference failure, and the view puts that string unchanged in the \<open>error\<close> member of
  its response.
\<close>

theorem error_prefix:
  "(predict_image image_open softmax_model b = Inl e \<longrightarrow>
      (\<exists>msg. predict_image_try image_open softmax_model b = Inl msg \<and> e = ''Error: '' @ msg))
   \<and> (image_open b = Inl m \<longrightarrow>
        predict_image image_open softmax_model b = Inl (''Error: '' @ m))
   \<and> (image_open b = Inr img \<and> softmax_model img = Inl m \<longrightarrow>
        predict_image image_open softmax_model b = Inl (''Error: '' @ m))
   \<and> (map_of (files req) ''file'' = Some upload \<and> filename upload \<noteq> []
        \<and> predict_image image_open softmax_model (content upload) = Inl e' \<longrightarrow>
        json_get (body (fst (predict image_open softmax_model req))) ''error'' = Some (JStr e')
        \<and> take 7 e' = ''Error: '')"
proof (intro conjI impI)
  assume "predict_image image_open softmax_model b = Inl e"
  then show "\<exists>msg. predict_image_try image_open softmax_model b = Inl msg \<and> e = ''Error: '' @ msg"
    by (rule predict_image_Inl)
next
  assume "image_open b = Inl m"
  then show "predict_image image_open softmax_model b = Inl (''Error: '' @ m)"
    by (rule predict_image_decode_error)
next
  assume "image_open b = Inr img \<and> softmax_model img = Inl m"
  then have "image_open b = Inr img" and "softmax_model img = Inl m"
    by (rule conjunct1, rule conjunct2)
  then show "predict_image image_open softmax_model b = Inl (''Error: '' @ m)"
    by (rule predict_image_model_error)
next
  assume a: "map_of (files req) ''file'' = Some upload \<and> filename upload \<noteq> []
        \<and> predict_image image_open softmax_model (content upload) = Inl e'"
  from a have u: "map_of (files req) ''file'' = Some upload" by (rule conjunct1)
  from a have n: "filename upload \<noteq> []" by (rule conjunct2[THEN conjunct1])
  from a have e: "predict_image image_open softmax_model (content upload) = Inl e'"
    by (rule conjunct2[THEN conjunct2])
  from predict_failed[OF u n e]
  show "json_get (body (fst (predict image_open softmax_model req))) ''error'' = Some (JStr e')"
    by simp
  from predict_image_Inl[OF e] obtain msg where "e' = ''Error: '' @ msg" by (elim exE conjE)
  then show "take 7 e' = ''Error: ''" by simp
qed

theorem error_prefix_witness:
  "sample_open [] = Inl ''cannot identify image file''
   \<and> predict_image sample_open sample_model [] = Inl ''Error: cannot identify image file''
   \<and> sample_open (content sample_file) = Inr () \<and> failing_model () = Inl ''out of memory''
   \<and> predict_image sample_open failing_model (content sample_file) = Inl ''Error: out of memory''
   \<and> map_of (files \<lparr>files = [(''file'', sample_file)]\<rparr>) ''file'' = Some sample_file
   \<and> filename sample_file \<noteq> []
   \<and> json_get (body (fst (predict sample_open failing_model \<lparr>files = [(''file'', sample_file)]\<rparr>)))
        ''error'' = Some (JStr ''Error: out of memory'')"
proof -
  have d: "sample_open [] = Inl ''cannot identify image file''" by (simp add: sample_open_def)
  from error_prefix[where image_open = sample_open and softmax_model = sample_model and b = "[]"
      and m = "''cannot identify image file''", THEN conjunct2, THEN conjunct1] d
  have "predict_image sample_open sample_model [] = Inl (''Error: '' @ ''cannot identify image file'')"
    by (rule mp)
  then have p1: "predict_image sample_open sample_model [] = Inl ''Error: cannot identify image file''"
    by simp
  from sample_file_decodes failing_model_raises
  have f: "sample_open (content sample_file) = Inr () \<and> failing_model () = Inl ''out of memory''"
    by (rule conjI)
  from error_prefix[where image_open = sample_open and softmax_model = failing_model
      and b = "content sample_file" and img = "()" and m = "''out of memory''",
      THEN conjunct2, THEN conjunct2, THEN conjunct1] f
  have "predict_image sample_open failing_model (content sample_file) = Inl (''Error: '' @ ''out of memory'')"
    by (rule mp)
  then have p2: "predict_image sample_open failing_model (content sample_file) = Inl ''Error: out of memory''"
    by simp
  from sample_request sample_file_name p2
  have g: "map_of (files \<lparr>files = [(''file'', sample_file)]\<rparr>) ''file'' = Some sample_file
      \<and> filename sample_file \<noteq> []
      \<and> predict_image sample_open failing_model (content sample_file) = Inl ''Error: out of memory''"
    by (intro conjI)
  from error_prefix[where image_open = sample_open and softmax_model = failing_model
      and req = "\<lparr>files = [(''file'', sample_file)]\<rparr>" and upload = sample_file
      and e' = "''Error: out of memory''",
      THEN conjunct2, THEN conjunct2, THEN conjunct2] g
  have "json_get (body (fst (predict sample_open failing_model \<lparr>files = [(''file'', sample_file)]\<rparr>)))
        ''error'' = Some (JStr ''Error: out of memory'')
      \<and> take 7 ''Error: out of memory'' = ''Error: ''"
    by (rule mp)
  then have p3: "json_get (body (fst (predict sample_open failing_model \<lparr>files = [(''file'', sample_file)]\<rparr>)))
        ''error'' = Some (JStr ''Error: out of memory'')"
    by (rule conjunct1)
  from d p1 sample_file_decodes failing_model_raises p2 sample_request sample_file_name p3
  show ?thesis by (intro conjI)
qed

end
